theory Spec2Isabelle
  imports Main "HOL-Library.AList" "HOL-Library.Sublist"
begin

section \<open>Data model\<close>

text \<open>
  Go strings and byte slices are byte sequences. A \<open>logrus.Fields\<close> value is a Go
  \<open>map[string]interface{}\<close>; it is kept as an association list, read through
  \<open>map_of\<close>, written with \<open>AList.update\<close> and \<open>AList.delete\<close>. The order of the
  list is the order in which a \<open>range\<close> loop visits the map, which Go leaves open:
  every statement below holds for every list, hence for every visiting order. The type
  \<open>'v\<close> stands for the dynamic values (\<open>interface{}\<close>) stored under the keys.
\<close>

type_synonym bytes = string

type_synonym 'v Fields = "(string \<times> 'v) list"

text \<open>
  A Go \<open>error\<close> value. \<open>errors.New msg\<close> builds an \<open>errorString\<close>; errors made outside
  this package (by \<open>net.Dial\<close>, by a formatter or by a writer) are \<open>foreignError\<close>s.
  A function returning \<open>error\<close> returns \<open>error option\<close>, \<open>None\<close> being \<open>nil\<close>.
\<close>

datatype error = errorString string | foreignError string

fun Error :: "error \<Rightarrow> string" where
  "Error (errorString s) = s"
| "Error (foreignError s) = s"

definition errors_New :: "string \<Rightarrow> error" where
  "errors_New msg = errorString msg"

datatype Level = PanicLevel | FatalLevel | ErrorLevel | WarnLevel | InfoLevel | DebugLevel

text \<open>A point in time in UTC, by its civil fields; \<open>time.Time{}\<close> is \<open>zeroTime\<close>.\<close>

record Time =
  Year :: nat
  Month :: nat
  Day :: nat
  Hour :: nat
  Minute :: nat
  Second :: nat

definition zeroTime :: Time where
  "zeroTime = \<lparr>Year = 1, Month = 1, Day = 1, Hour = 0, Minute = 0, Second = 0\<rparr>"

text \<open>
  \<open>logrus.Entry\<close>, with the fields the hooks and the tests use. \<open>Data\<close> is an
  allocated map, as it is in every entry that logrus makes and in the entries of the
  tests.
\<close>

record 'v Entry =
  Level :: Level
  Message :: string
  Time :: Time
  Data :: "'v Fields"

text \<open>
  The two interfaces a hook holds. \<open>Fire\<close> calls each of them at most once, so an
  interface value is given by what that one call returns: \<open>Format\<close> returns the bytes or
  an error, \<open>Write\<close> returns the number of bytes written and an error or \<open>nil\<close>.
  An interface-typed field can be \<open>nil\<close>, so the fields are options.
\<close>

type_synonym 'v Formatter = "'v Entry \<Rightarrow> error + bytes"

type_synonym Writer = "bytes \<Rightarrow> int \<times> error option"

record 'v Hook =
  conn :: "Writer option"
  ctx :: "'v Fields"
  formatter :: "'v Formatter option"

record 'v Options =
  Conn :: "Writer option"
  Protocol :: string
  Address :: string
  AppName :: string
  Fields :: "'v Fields option"
  Formatter :: "'v Formatter option"

record 'v LegacyHook =
  legacy_conn :: "Writer option"
  appName :: string
  alwaysSentFields :: "'v Fields"
  hookOnlyPrefix :: string

section \<open>Options validation and construction\<close>

definition validOptions :: "'v Options \<Rightarrow> error option" where
  "validOptions opts =
     (if Conn opts = None \<and> (Address opts = '''' \<or> Protocol opts = '''') then
        Some (errors_New ''Missing connection details'')
      else if Conn opts \<noteq> None \<and> (Address opts \<noteq> '''' \<or> Protocol opts \<noteq> '''') then
        Some (errors_New ''Specify Conn or Address and Protocol'')
      else if AppName opts \<noteq> '''' \<and> Formatter opts \<noteq> None then
        Some (errors_New ''Specify AppName or Formatter'')
      else None)"

text \<open>
  \<open>New\<close> calls \<open>net.Dial\<close> of the Go library and \<open>defaultFormatter\<close>, a function of
  this package that is not among the sources at hand; both are parameters.
\<close>

definition New ::
  "(string \<Rightarrow> string \<Rightarrow> error + Writer) \<Rightarrow> (string \<Rightarrow> string \<Rightarrow> 'v Formatter) \<Rightarrow>
   'v Options \<Rightarrow> error + 'v Hook" where
  "New Dial defaultFormatter opts =
     (case validOptions opts of
        Some err \<Rightarrow> Inl err
      | None \<Rightarrow>
          (case (case Conn opts of
                   None \<Rightarrow> Dial (Protocol opts) (Address opts)
                 | Some c \<Rightarrow> Inr c) of
             Inl err \<Rightarrow> Inl err
           | Inr c \<Rightarrow>
               Inr \<lparr>conn = Some c,
                    ctx = (case Fields opts of None \<Rightarrow> [] | Some fs \<Rightarrow> fs),
                    formatter =
                      (if AppName opts \<noteq> '''' then Some (defaultFormatter (AppName opts) ''1'')
                       else Formatter opts)\<rparr>))"

section \<open>Severity levels\<close>

definition Hook_Levels :: "'v Hook \<Rightarrow> Level list" where
  "Hook_Levels h =
     [PanicLevel, FatalLevel, ErrorLevel, WarnLevel, InfoLevel, DebugLevel]"

definition LegacyHook_Levels :: "'v LegacyHook \<Rightarrow> Level list" where
  "LegacyHook_Levels h =
     [PanicLevel, FatalLevel, ErrorLevel, WarnLevel, InfoLevel, DebugLevel]"

section \<open>Firing a hook\<close>

text \<open>
  What one call of \<open>Fire\<close> leaves behind: how it ended, the entry (which \<open>Fire\<close> mutates
  in place through its pointer), and the calls it made on its formatter and its writer,
  in order. A method call on a \<open>nil\<close> interface value panics.
\<close>

datatype call = Format_call | Write_call bytes

datatype fire_result = Return "error option" | Panic

record 'v fired =
  result :: fire_result
  entry_after :: "'v Entry"
  calls :: "call list"

text \<open>
  The loop shared by both hooks: \<open>for k, v := range fields { if _, ok := data[k]; !ok
  { data[k] = v } }\<close>.
\<close>

fun addMissing :: "'v Fields \<Rightarrow> 'v Fields \<Rightarrow> 'v Fields" where
  "addMissing [] data = data"
| "addMissing ((k, v) # rest) data =
     addMissing rest (case map_of data k of None \<Rightarrow> AList.update k v data | Some _ \<Rightarrow> data)"

definition Hook_Fire :: "'v Hook \<Rightarrow> 'v Entry \<Rightarrow> 'v fired" where
  "Hook_Fire h entry =
     (let entry = entry\<lparr>Data := addMissing (ctx h) (Data entry)\<rparr> in
      case formatter h of
        None \<Rightarrow> \<lparr>result = Panic, entry_after = entry, calls = []\<rparr>
      | Some f \<Rightarrow>
          (case f entry of
             Inl err \<Rightarrow> \<lparr>result = Return (Some err), entry_after = entry, calls = [Format_call]\<rparr>
           | Inr dataBytes \<Rightarrow>
               (case conn h of
                  None \<Rightarrow> \<lparr>result = Panic, entry_after = entry, calls = [Format_call]\<rparr>
                | Some w \<Rightarrow>
                    (case snd (w dataBytes) of
                       Some err \<Rightarrow>
                         \<lparr>result = Return (Some err), entry_after = entry,
                          calls = [Format_call, Write_call dataBytes]\<rparr>
                     | None \<Rightarrow>
                         \<lparr>result = Return None, entry_after = entry,
                          calls = [Format_call, Write_call dataBytes]\<rparr>))))"

subsection \<open>The legacy hook\<close>

definition NewHookWithFieldsAndConnAndPrefix ::
  "Writer option \<Rightarrow> string \<Rightarrow> 'v Fields \<Rightarrow> string \<Rightarrow> 'v LegacyHook" where
  "NewHookWithFieldsAndConnAndPrefix c name sent pre =
     \<lparr>legacy_conn = c, appName = name, alwaysSentFields = sent, hookOnlyPrefix = pre\<rparr>"

definition NewFilterHookWithPrefix :: "string \<Rightarrow> 'v LegacyHook" where
  "NewFilterHookWithPrefix pre =
     \<lparr>legacy_conn = None, appName = '''', alwaysSentFields = [], hookOnlyPrefix = pre\<rparr>"

definition NewFilterHook :: "'v LegacyHook" where
  "NewFilterHook = NewFilterHookWithPrefix ''''"

definition WithPrefix :: "'v LegacyHook \<Rightarrow> string \<Rightarrow> 'v LegacyHook" where
  "WithPrefix h pre = h\<lparr>hookOnlyPrefix := pre\<rparr>"

definition WithField :: "'v LegacyHook \<Rightarrow> string \<Rightarrow> 'v \<Rightarrow> 'v LegacyHook" where
  "WithField h key val = h\<lparr>alwaysSentFields := AList.update key val (alwaysSentFields h)\<rparr>"

definition WithFields :: "'v LegacyHook \<Rightarrow> 'v Fields \<Rightarrow> 'v LegacyHook" where
  "WithFields h new =
     h\<lparr>alwaysSentFields :=
         foldl (\<lambda>m (key, val). AList.update key val m) (alwaysSentFields h) new\<rparr>"

text \<open>
  \<open>filterHookOnly\<close> ranges over the keys of \<open>entry.Data\<close> and deletes the key it is at
  when \<open>strings.HasPrefix\<close> holds. Deleting the current key of a \<open>range\<close> loop is
  allowed in Go and every other key is still visited, so the loop runs over the keys
  the map had when it started.
\<close>

fun deletePrefixed :: "string \<Rightarrow> string list \<Rightarrow> 'v Fields \<Rightarrow> 'v Fields" where
  "deletePrefixed pre [] data = data"
| "deletePrefixed pre (key # keys) data =
     deletePrefixed pre keys (if prefix pre key then AList.delete key data else data)"

definition filterHookOnly :: "'v LegacyHook \<Rightarrow> 'v Entry \<Rightarrow> 'v Entry" where
  "filterHookOnly h entry =
     (if hookOnlyPrefix h \<noteq> '''' then
        entry\<lparr>Data := deletePrefixed (hookOnlyPrefix h) (map fst (Data entry)) (Data entry)\<rparr>
      else entry)"

text \<open>
  The body of \<open>LegacyHook.Fire\<close> below its \<open>defer\<close> statement. The formatter is a
  \<open>LogstashFormatter{Type: h.appName}\<close>, whose method \<open>FormatWithPrefix\<close> is not among
  the sources at hand: it is a parameter, given the \<open>Type\<close>, the entry and the prefix.
\<close>

definition LegacyHook_Fire_body ::
  "(string \<Rightarrow> 'v Entry \<Rightarrow> string \<Rightarrow> error + bytes) \<Rightarrow> 'v LegacyHook \<Rightarrow> 'v Entry \<Rightarrow> 'v fired" where
  "LegacyHook_Fire_body FormatWithPrefix h entry =
     (let entry = entry\<lparr>Data := addMissing (alwaysSentFields h) (Data entry)\<rparr> in
      case legacy_conn h of
        None \<Rightarrow> \<lparr>result = Return None, entry_after = entry, calls = []\<rparr>
      | Some w \<Rightarrow>
          (case FormatWithPrefix (appName h) entry (hookOnlyPrefix h) of
             Inl err \<Rightarrow> \<lparr>result = Return (Some err), entry_after = entry, calls = [Format_call]\<rparr>
           | Inr dataBytes \<Rightarrow>
               (case snd (w dataBytes) of
                  Some err \<Rightarrow>
                    \<lparr>result = Return (Some err), entry_after = entry,
                     calls = [Format_call, Write_call dataBytes]\<rparr>
                | None \<Rightarrow>
                    \<lparr>result = Return None, entry_after = entry,
                     calls = [Format_call, Write_call dataBytes]\<rparr>)))"

text \<open>
  \<open>defer h.filterHookOnly(entry)\<close> is the first statement of \<open>Fire\<close>: the filter runs
  on the entry when the body has finished, whichever \<open>return\<close> it took, and leaves the
  returned error as it is.
\<close>

definition LegacyHook_Fire ::
  "(string \<Rightarrow> 'v Entry \<Rightarrow> string \<Rightarrow> error + bytes) \<Rightarrow> 'v LegacyHook \<Rightarrow> 'v Entry \<Rightarrow> 'v fired" where
  "LegacyHook_Fire FormatWithPrefix h entry =
     (let r = LegacyHook_Fire_body FormatWithPrefix h entry in
      r\<lparr>entry_after := filterHookOnly h (entry_after r)\<rparr>)"

subsection \<open>Fixtures of the test suite\<close>

text \<open>
  The test type \<open>failer\<close> implements both interfaces: \<open>Format\<close> returns
  \<open>(nil, f.ffunc())\<close> and \<open>Write\<close> returns \<open>(0, f.wfunc())\<close>. Its two functions take no
  argument, so each is given by the error it returns.
\<close>

record failer =
  errMsg :: string
  wfunc :: "error option"
  ffunc :: "error option"

definition failer_Format :: "failer \<Rightarrow> 'v Formatter" where
  "failer_Format f entry = (case ffunc f of Some err \<Rightarrow> Inl err | None \<Rightarrow> Inr [])"

definition failer_Write :: "failer \<Rightarrow> Writer" where
  "failer_Write f p = (0, wfunc f)"

text \<open>
  \<open>bytes.Buffer\<close>, the writer of the other tests: \<open>Write\<close> takes all of \<open>p\<close> and
  returns \<open>(len(p), nil)\<close>.
\<close>

definition Buffer_Write :: Writer where
  "Buffer_Write p = (int (length p), None)"

text \<open>
  A \<open>FormatWithPrefix\<close> for the examples below, which returns the same outcome for
  every entry and prefix.
\<close>

definition fixedFormat :: "error + bytes \<Rightarrow> string \<Rightarrow> 'v Entry \<Rightarrow> string \<Rightarrow> error + bytes" where
  "fixedFormat r typ entry pre = r"

text \<open>
  The entry of the prefix example: fields \<open>{"_hostname": "h1", "status": "up"}\<close>, and an
  entry without fields as in \<open>TestFireErrors\<close>.
\<close>

definition hostEntry :: "string Entry" where
  "hostEntry =
     \<lparr>Level = InfoLevel, Message = ''up'', Time = zeroTime,
      Data = [(''_hostname'', ''h1''), (''status'', ''up'')]\<rparr>"

definition emptyEntry :: "string Entry" where
  "emptyEntry = \<lparr>Level = PanicLevel, Message = '''', Time = zeroTime, Data = []\<rparr>"

text \<open>
  The two rows of \<open>TestFireErrors\<close>: a \<open>failer\<close> whose \<open>Format\<close> fails and one whose
  \<open>Write\<close> fails.
\<close>

definition formatFailer :: failer where
  "formatFailer =
     \<lparr>errMsg = ''format error'', wfunc = None, ffunc = Some (errors_New ''format error'')\<rparr>"

definition writeFailer :: failer where
  "writeFailer =
     \<lparr>errMsg = ''write error'', wfunc = Some (errors_New ''write error''), ffunc = None\<rparr>"

text \<open>
  Stand-ins for the two parameters of \<open>New\<close> in the examples: a \<open>defaultFormatter\<close> that
  returns the same outcome for every entry, a dial that reaches a buffer and a dial
  that fails as in \<open>TestNewErrors\<close>.
\<close>

definition fixedFormatter :: "error + bytes \<Rightarrow> string \<Rightarrow> string \<Rightarrow> 'v Formatter" where
  "fixedFormatter r name version entry = r"

definition bufferDial :: "string \<Rightarrow> string \<Rightarrow> error + Writer" where
  "bufferDial protocol address = Inr Buffer_Write"

definition failingDial :: "string \<Rightarrow> string \<Rightarrow> error + Writer" where
  "failingDial protocol address =
     Inl (foreignError (''dial '' @ protocol @ '' '' @ address @ '': getsockopt: no route to host''))"

section \<open>The validation contract in the words of the specification\<close>

text \<open>
  The three configuration errors of the contract and the conditions that raise them. A
  protocol and address pair is a connection source when both are given; next to a
  pre-built writer either of the two already makes the source ambiguous.
\<close>

datatype ConfigurationError =
  MissingConnectionDetails | AmbiguousConnectionSource | AmbiguousFormatterSource

fun configurationError :: "ConfigurationError \<Rightarrow> error" where
  "configurationError MissingConnectionDetails = errorString ''Missing connection details''"
| "configurationError AmbiguousConnectionSource =
     errorString ''Specify Conn or Address and Protocol''"
| "configurationError AmbiguousFormatterSource = errorString ''Specify AppName or Formatter''"

definition noConnectionSource :: "'v Options \<Rightarrow> bool" where
  "noConnectionSource opts \<longleftrightarrow>
     Conn opts = None \<and> \<not> (Protocol opts \<noteq> '''' \<and> Address opts \<noteq> '''')"

definition writerAndAddress :: "'v Options \<Rightarrow> bool" where
  "writerAndAddress opts \<longleftrightarrow>
     Conn opts \<noteq> None \<and> (Protocol opts \<noteq> '''' \<or> Address opts \<noteq> '''')"

definition appNameAndFormatter :: "'v Options \<Rightarrow> bool" where
  "appNameAndFormatter opts \<longleftrightarrow> AppName opts \<noteq> '''' \<and> Formatter opts \<noteq> None"

definition spec_validOptions :: "'v Options \<Rightarrow> ConfigurationError option" where
  "spec_validOptions opts =
     (if noConnectionSource opts then Some MissingConnectionDetails
      else if writerAndAddress opts then Some AmbiguousConnectionSource
      else if appNameAndFormatter opts then Some AmbiguousFormatterSource
      else None)"

text \<open>The option records of \<open>TestValidOptions\<close> are built from the zero value.\<close>

definition zeroOptions :: "string Options" where
  "zeroOptions =
     \<lparr>Conn = None, Protocol = '''', Address = '''', AppName = '''', Fields = None,
      Formatter = None\<rparr>"

section \<open>The default formatter\<close>

text \<open>
  The values a field can hold in the examples of the formatter: a JSON-compatible tagged
  union.
\<close>

datatype FieldValue = StringValue string | NumberValue int | BoolValue bool | NilValue

text \<open>
  Modelled from the spec: the string form of a severity, which the record carries under
  \<open>@level\<close> as a lowercase name. It is the \<open>String\<close> method of \<open>logrus.Level\<close>, which
  is not among the sources at hand and which names \<open>WarnLevel\<close> "warning".
\<close>

fun levelString :: "Level \<Rightarrow> string" where
  "levelString PanicLevel = ''panic''"
| "levelString FatalLevel = ''fatal''"
| "levelString ErrorLevel = ''error''"
| "levelString WarnLevel = ''warning''"
| "levelString InfoLevel = ''info''"
| "levelString DebugLevel = ''debug''"

text \<open>
  Modelled from the spec: the decimal digit of a number below ten, for the timestamp.
\<close>

definition digitChar :: "nat \<Rightarrow> char" where
  "digitChar d =
     (if d = 0 then CHR ''0'' else if d = 1 then CHR ''1'' else if d = 2 then CHR ''2''
      else if d = 3 then CHR ''3'' else if d = 4 then CHR ''4'' else if d = 5 then CHR ''5''
      else if d = 6 then CHR ''6'' else if d = 7 then CHR ''7'' else if d = 8 then CHR ''8''
      else CHR ''9'')"

text \<open>
  Modelled from the spec: a number in two and in four decimal digits, with leading
  zeros, as the date and time fields of RFC3339 are written.
\<close>

definition pad2 :: "nat \<Rightarrow> string" where
  "pad2 n = [digitChar (n div 10 mod 10), digitChar (n mod 10)]"

definition pad4 :: "nat \<Rightarrow> string" where
  "pad4 n = pad2 (n div 100) @ pad2 n"

text \<open>
  Modelled from the spec: the \<open>@timestamp\<close> of the record is the time of the entry in
  RFC3339, \<open>2006-01-02T15:04:05Z\<close> for a time in UTC. The formatting is done by
  \<open>Time.Format\<close> of the Go library, which is not among the sources at hand.
\<close>

definition formatRFC3339 :: "Time \<Rightarrow> string" where
  "formatRFC3339 t =
     pad4 (Year t) @ ''-'' @ pad2 (Month t) @ ''-'' @ pad2 (Day t) @ ''T'' @
     pad2 (Hour t) @ '':'' @ pad2 (Minute t) @ '':'' @ pad2 (Second t) @ ''Z''"

text \<open>
  Modelled from the spec: the JSON object that the default formatter serializes, which
  stands in for the body of \<open>defaultFormatter\<close>, a function of this package that is not
  among the sources at hand. The object holds the full field mapping of the entry plus
  the five reserved keys \<open>@message\<close>, \<open>@level\<close>, \<open>@timestamp\<close> (RFC3339), \<open>type\<close> (the
  application name) and \<open>@version\<close> (the schema version). The reserved keys are computed
  last, so that no field of the user overrides them.
\<close>

definition logstashFields :: "string \<Rightarrow> string \<Rightarrow> FieldValue Entry \<Rightarrow> FieldValue Fields" where
  "logstashFields name version entry =
     AList.update ''@version'' (StringValue version)
       (AList.update ''type'' (StringValue name)
         (AList.update ''@timestamp'' (StringValue (formatRFC3339 (Time entry)))
           (AList.update ''@level'' (StringValue (levelString (Level entry)))
             (AList.update ''@message'' (StringValue (Message entry)) (Data entry)))))"

text \<open>
  Modelled from the spec: \<open>defaultFormatter\<close>, which is not among the sources at hand.
  The formatter bound to an application name and a schema version produces the
  serialized bytes of that object, one JSON document and a newline. The JSON encoder
  of the Go library is the parameter \<open>marshal\<close>; it fails on a value it cannot
  serialize.
\<close>

definition defaultFormatter ::
  "(FieldValue Fields \<Rightarrow> error + bytes) \<Rightarrow> string \<Rightarrow> string \<Rightarrow> FieldValue Formatter" where
  "defaultFormatter marshal name version entry =
     (case marshal (logstashFields name version entry) of
        Inl err \<Rightarrow> Inl err
      | Inr serialized \<Rightarrow> Inr (serialized @ [CHR 0x0A]))"

text \<open>The first entry of \<open>TestHookFire\<close> and the options of its hook, less the static fields.\<close>

definition helloEntry :: "FieldValue Entry" where
  "helloEntry =
     \<lparr>Level = PanicLevel, Message = ''hello world'', Time = zeroTime,
      Data = [(''id'', StringValue ''a1'')]\<rparr>"

definition test1Options :: "FieldValue Options" where
  "test1Options =
     \<lparr>Conn = Some Buffer_Write, Protocol = '''', Address = '''', AppName = ''test1'',
      Fields = None, Formatter = None\<rparr>"

section \<open>Lemmas on the field loops\<close>

lemma map_of_addMissing:
  "map_of (addMissing fs data) k =
     (case map_of data k of Some v \<Rightarrow> Some v | None \<Rightarrow> map_of fs k)"
proof (induction fs arbitrary: data)
  case Nil
  show ?case by (simp split: option.splits)
next
  case (Cons p fs)
  obtain k' v' where p: "p = (k', v')" by (cases p)
  show ?case
    unfolding p by (simp add: Cons.IH update_conv' split: option.splits)
qed

lemma map_of_deletePrefixed:
  "map_of (deletePrefixed pre keys data) k =
     (if prefix pre k \<and> k \<in> set keys then None else map_of data k)"
  by (induction keys arbitrary: data) (auto simp: delete_conv')

lemma map_of_filterHookOnly:
  "map_of (Data (filterHookOnly h entry)) k =
     (if hookOnlyPrefix h \<noteq> '''' \<and> prefix (hookOnlyPrefix h) k then None
      else map_of (Data entry) k)"
proof (cases "k \<in> fst ` set (Data entry)")
  case True
  then show ?thesis
    by (simp add: filterHookOnly_def map_of_deletePrefixed)
next
  case False
  then have "map_of (Data entry) k = None"
    by (simp add: map_of_eq_None_iff)
  then show ?thesis
    by (simp add: filterHookOnly_def map_of_deletePrefixed)
qed

lemma entry_after_Hook_Fire:
  "entry_after (Hook_Fire h entry) = entry\<lparr>Data := addMissing (ctx h) (Data entry)\<rparr>"
  by (simp add: Hook_Fire_def Let_def split: option.splits sum.splits)

lemma entry_after_LegacyHook_Fire_body:
  "entry_after (LegacyHook_Fire_body fmt h entry) =
     entry\<lparr>Data := addMissing (alwaysSentFields h) (Data entry)\<rparr>"
  by (simp add: LegacyHook_Fire_body_def Let_def split: option.splits sum.splits)

lemma entry_after_LegacyHook_Fire:
  "entry_after (LegacyHook_Fire fmt h entry) =
     filterHookOnly h (entry\<lparr>Data := addMissing (alwaysSentFields h) (Data entry)\<rparr>)"
  by (simp add: LegacyHook_Fire_def Let_def entry_after_LegacyHook_Fire_body)

lemma map_of_LegacyHook_Fire:
  "map_of (Data (entry_after (LegacyHook_Fire fmt h entry))) k =
     (if hookOnlyPrefix h \<noteq> '''' \<and> prefix (hookOnlyPrefix h) k then None
      else case map_of (Data entry) k of Some v \<Rightarrow> Some v | None \<Rightarrow> map_of (alwaysSentFields h) k)"
  by (simp add: entry_after_LegacyHook_Fire map_of_filterHookOnly map_of_addMissing)

lemma result_LegacyHook_Fire:
  "result (LegacyHook_Fire fmt h entry) = result (LegacyHook_Fire_body fmt h entry)"
  by (simp add: LegacyHook_Fire_def Let_def)

lemma calls_LegacyHook_Fire:
  "calls (LegacyHook_Fire fmt h entry) = calls (LegacyHook_Fire_body fmt h entry)"
  by (simp add: LegacyHook_Fire_def Let_def)

section \<open>Options validation\<close>

text \<open>
  C2. The options validator is a function of the configuration record alone. Its result
  is success or one of three distinct errors, decided in this order: no connection
  source gives "Missing connection details"; else a pre-built writer together with a
  protocol or an address gives "Specify Conn or Address and Protocol"; else an
  application name together with a custom formatter gives "Specify AppName or
  Formatter"; else success.
\<close>

theorem validOptions_contract:
  "validOptions opts = map_option configurationError (spec_validOptions opts)
   \<and> inj configurationError
   \<and> (validOptions opts = Some (errorString ''Missing connection details'')
        \<longleftrightarrow> noConnectionSource opts)
   \<and> (validOptions opts = Some (errorString ''Specify Conn or Address and Protocol'')
        \<longleftrightarrow> writerAndAddress opts)
   \<and> (validOptions opts = Some (errorString ''Specify AppName or Formatter'')
        \<longleftrightarrow> \<not> noConnectionSource opts \<and> \<not> writerAndAddress opts \<and> appNameAndFormatter opts)
   \<and> (validOptions opts = None
        \<longleftrightarrow> \<not> noConnectionSource opts \<and> \<not> writerAndAddress opts \<and> \<not> appNameAndFormatter opts)"
proof -
  have inj: "inj configurationError"
  proof (rule injI)
    fix a b
    assume "configurationError a = configurationError b"
    then show "a = b" by (cases a; cases b) simp_all
  qed
  have eq: "validOptions opts = map_option configurationError (spec_validOptions opts)"
    by (auto simp: validOptions_def spec_validOptions_def noConnectionSource_def
        writerAndAddress_def appNameAndFormatter_def errors_New_def)
  have rest:
    "(validOptions opts = Some (errorString ''Missing connection details'')
        \<longleftrightarrow> noConnectionSource opts)
     \<and> (validOptions opts = Some (errorString ''Specify Conn or Address and Protocol'')
        \<longleftrightarrow> writerAndAddress opts)
     \<and> (validOptions opts = Some (errorString ''Specify AppName or Formatter'')
        \<longleftrightarrow> \<not> noConnectionSource opts \<and> \<not> writerAndAddress opts \<and> appNameAndFormatter opts)
     \<and> (validOptions opts = None
        \<longleftrightarrow> \<not> noConnectionSource opts \<and> \<not> writerAndAddress opts \<and> \<not> appNameAndFormatter opts)"
    unfolding eq by (simp add: spec_validOptions_def noConnectionSource_def writerAndAddress_def)
  from eq inj rest show ?thesis by blast
qed

theorem validOptions_contract_witness:
  "validOptions zeroOptions = Some (errorString ''Missing connection details'')
   \<and> validOptions (zeroOptions\<lparr>Conn := Some Buffer_Write\<rparr>) = None
   \<and> validOptions (zeroOptions\<lparr>Address := ''localhost:8989'', Protocol := ''udp''\<rparr>) = None
   \<and> validOptions (zeroOptions\<lparr>Conn := Some Buffer_Write, Protocol := ''tcp''\<rparr>)
       = Some (errorString ''Specify Conn or Address and Protocol'')
   \<and> validOptions (zeroOptions\<lparr>Conn := Some Buffer_Write, AppName := ''bla'',
         Formatter := Some (failer_Format \<lparr>errMsg = '''', wfunc = None, ffunc = None\<rparr>)\<rparr>)
       = Some (errorString ''Specify AppName or Formatter'')
   \<and> validOptions (zeroOptions\<lparr>AppName := ''bla'',
         Formatter := Some (failer_Format \<lparr>errMsg = '''', wfunc = None, ffunc = None\<rparr>)\<rparr>)
       = Some (errorString ''Missing connection details'')"
  using validOptions_contract [of zeroOptions]
    validOptions_contract [of "zeroOptions\<lparr>Conn := Some Buffer_Write\<rparr>"]
    validOptions_contract [of "zeroOptions\<lparr>Address := ''localhost:8989'', Protocol := ''udp''\<rparr>"]
    validOptions_contract [of "zeroOptions\<lparr>Conn := Some Buffer_Write, Protocol := ''tcp''\<rparr>"]
    validOptions_contract [of "zeroOptions\<lparr>Conn := Some Buffer_Write, AppName := ''bla'',
         Formatter := Some (failer_Format \<lparr>errMsg = '''', wfunc = None, ffunc = None\<rparr>)\<rparr>"]
    validOptions_contract [of "zeroOptions\<lparr>AppName := ''bla'',
         Formatter := Some (failer_Format \<lparr>errMsg = '''', wfunc = None, ffunc = None\<rparr>)\<rparr>"]
  by (simp add: zeroOptions_def noConnectionSource_def writerAndAddress_def
      appNameAndFormatter_def spec_validOptions_def)

text \<open>
  C9. An incomplete protocol and address pair is classified asymmetrically. Without a
  pre-built writer, an address alone or a protocol alone fails with the
  missing-connection error: the pair counts as unset. With a pre-built writer, a
  protocol or an address, even one of them, fails with the ambiguous-connection error:
  the pair counts as set.
\<close>

theorem validOptions_incomplete_pair:
  "(Conn opts = None \<and> Address opts \<noteq> '''' \<and> Protocol opts = ''''
      \<longrightarrow> validOptions opts = Some (errors_New ''Missing connection details''))
   \<and> (Conn opts = None \<and> Address opts = '''' \<and> Protocol opts \<noteq> ''''
      \<longrightarrow> validOptions opts = Some (errors_New ''Missing connection details''))
   \<and> (Conn opts \<noteq> None \<and> (Protocol opts \<noteq> '''' \<or> Address opts \<noteq> '''')
      \<longrightarrow> validOptions opts = Some (errors_New ''Specify Conn or Address and Protocol''))"
  by (simp add: validOptions_def)

theorem validOptions_incomplete_pair_witness:
  "validOptions (zeroOptions\<lparr>Address := ''localhost:8989''\<rparr>)
       = Some (errors_New ''Missing connection details'')
   \<and> validOptions (zeroOptions\<lparr>Protocol := ''tcp''\<rparr>)
       = Some (errors_New ''Missing connection details'')
   \<and> validOptions (zeroOptions\<lparr>Conn := Some Buffer_Write, Protocol := ''tcp''\<rparr>)
       = Some (errors_New ''Specify Conn or Address and Protocol'')
   \<and> validOptions (zeroOptions\<lparr>Conn := Some Buffer_Write, Address := ''localhost''\<rparr>)
       = Some (errors_New ''Specify Conn or Address and Protocol'')"
  using validOptions_incomplete_pair [of "zeroOptions\<lparr>Address := ''localhost:8989''\<rparr>"]
    validOptions_incomplete_pair [of "zeroOptions\<lparr>Protocol := ''tcp''\<rparr>"]
    validOptions_incomplete_pair [of "zeroOptions\<lparr>Conn := Some Buffer_Write, Protocol := ''tcp''\<rparr>"]
    validOptions_incomplete_pair [of "zeroOptions\<lparr>Conn := Some Buffer_Write, Address := ''localhost''\<rparr>"]
  by (simp add: zeroOptions_def)

section \<open>Severity levels\<close>

text \<open>
  C7. \<open>Levels\<close> of both hooks returns the six standard severities, in the order panic,
  fatal, error, warn, info, debug: every severity is in the list, once. Neither \<open>Fire\<close>
  looks at the level of the entry: the fields it leaves in the entry are the same
  whatever the level.
\<close>

theorem Levels_all_six:
  "Hook_Levels h = [PanicLevel, FatalLevel, ErrorLevel, WarnLevel, InfoLevel, DebugLevel]
   \<and> LegacyHook_Levels g = [PanicLevel, FatalLevel, ErrorLevel, WarnLevel, InfoLevel, DebugLevel]
   \<and> set (Hook_Levels h) = UNIV \<and> distinct (Hook_Levels h)
   \<and> set (LegacyHook_Levels g) = UNIV \<and> distinct (LegacyHook_Levels g)
   \<and> Data (entry_after (Hook_Fire h (entry\<lparr>Level := l\<rparr>))) = Data (entry_after (Hook_Fire h entry))
   \<and> Data (entry_after (LegacyHook_Fire fmt g (entry\<lparr>Level := l\<rparr>)))
       = Data (entry_after (LegacyHook_Fire fmt g entry))"
proof -
  have all: "UNIV = {PanicLevel, FatalLevel, ErrorLevel, WarnLevel, InfoLevel, DebugLevel}"
  proof (rule set_eqI)
    fix x :: Level
    show "x \<in> UNIV \<longleftrightarrow> x \<in> {PanicLevel, FatalLevel, ErrorLevel, WarnLevel, InfoLevel, DebugLevel}"
      by (cases x) simp_all
  qed
  have lists: "set (Hook_Levels h) = UNIV \<and> distinct (Hook_Levels h)
      \<and> set (LegacyHook_Levels g) = UNIV \<and> distinct (LegacyHook_Levels g)"
    unfolding all by (simp add: Hook_Levels_def LegacyHook_Levels_def)
  have fire: "Data (entry_after (Hook_Fire h (entry\<lparr>Level := l\<rparr>)))
      = Data (entry_after (Hook_Fire h entry))"
    by (simp add: entry_after_Hook_Fire)
  have legacy: "Data (entry_after (LegacyHook_Fire fmt g (entry\<lparr>Level := l\<rparr>)))
      = Data (entry_after (LegacyHook_Fire fmt g entry))"
    by (simp add: entry_after_LegacyHook_Fire filterHookOnly_def)
  from lists fire legacy show ?thesis
    by (simp add: Hook_Levels_def LegacyHook_Levels_def)
qed

section \<open>Static fields\<close>

text \<open>
  C1, as the code has it. After \<open>Hook.Fire\<close>, however it ends, every key of the static
  fields that was not in the entry is in the entry with the static value, every key that
  was in the entry keeps its value, and no other key appears. After \<open>LegacyHook.Fire\<close>
  the same holds for every key that does not start with a non-empty hook-only prefix;
  the keys that start with a non-empty hook-only prefix are absent, since the deferred
  filter has removed them. Static fields never overwrite a field of the event.
\<close>

theorem Fire_merges_static_fields:
  "map_of (Data (entry_after (Hook_Fire h entry))) k =
     (case map_of (Data entry) k of Some v \<Rightarrow> Some v | None \<Rightarrow> map_of (ctx h) k)
   \<and> map_of (Data (entry_after (LegacyHook_Fire fmt g entry))) k =
     (if hookOnlyPrefix g \<noteq> '''' \<and> prefix (hookOnlyPrefix g) k then None
      else case map_of (Data entry) k of
             Some v \<Rightarrow> Some v
           | None \<Rightarrow> map_of (alwaysSentFields g) k)"
  by (simp add: entry_after_Hook_Fire map_of_addMissing map_of_LegacyHook_Fire)

text \<open>
  At the two cases of \<open>TestHookFire\<close>: static field \<open>f1\<close> is added next to \<open>id\<close>, and
  does not replace the event's own \<open>f1\<close>; and at a legacy hook with prefix \<open>_\<close>.
\<close>

theorem Fire_merges_static_fields_witness:
  "map_of (Data (entry_after (Hook_Fire
       \<lparr>conn = Some Buffer_Write, ctx = [(''f1'', ''1'')],
        formatter = Some (failer_Format writeFailer)\<rparr>
       (emptyEntry\<lparr>Data := [(''id'', ''a1'')]\<rparr>)))) ''f1'' = Some ''1''
   \<and> map_of (Data (entry_after (Hook_Fire
       \<lparr>conn = Some Buffer_Write, ctx = [(''f1'', ''1'')],
        formatter = Some (failer_Format writeFailer)\<rparr>
       (emptyEntry\<lparr>Data := [(''id'', ''a1'')]\<rparr>)))) ''id'' = Some ''a1''
   \<and> map_of (Data (entry_after (Hook_Fire
       \<lparr>conn = Some Buffer_Write, ctx = [(''f1'', ''1'')],
        formatter = Some (failer_Format writeFailer)\<rparr>
       (emptyEntry\<lparr>Data := [(''f1'', ''a2'')]\<rparr>)))) ''f1'' = Some ''a2''
   \<and> result (Hook_Fire
       \<lparr>conn = Some Buffer_Write, ctx = [(''f1'', ''1'')],
        formatter = Some (failer_Format writeFailer)\<rparr>
       (emptyEntry\<lparr>Data := [(''f1'', ''a2'')]\<rparr>)) = Return None
   \<and> map_of (Data (entry_after (LegacyHook_Fire (fixedFormat (Inr []))
       (NewHookWithFieldsAndConnAndPrefix None ''app'' [(''status'', ''down''), (''zone'', ''z1'')] ''_'')
       hostEntry))) ''status'' = Some ''up''
   \<and> map_of (Data (entry_after (LegacyHook_Fire (fixedFormat (Inr []))
       (NewHookWithFieldsAndConnAndPrefix None ''app'' [(''status'', ''down''), (''zone'', ''z1'')] ''_'')
       hostEntry))) ''zone'' = Some ''z1''"
  using Fire_merges_static_fields
      [where h = "\<lparr>conn = Some Buffer_Write, ctx = [(''f1'', ''1'')],
          formatter = Some (failer_Format writeFailer)\<rparr>"
        and entry = "emptyEntry\<lparr>Data := [(''id'', ''a1'')]\<rparr>" and k = "''f1''"
        and fmt = "fixedFormat (Inr [])"
        and g = "NewHookWithFieldsAndConnAndPrefix None ''app'' [(''status'', ''down''), (''zone'', ''z1'')] ''_''"]
    Fire_merges_static_fields
      [where h = "\<lparr>conn = Some Buffer_Write, ctx = [(''f1'', ''1'')],
          formatter = Some (failer_Format writeFailer)\<rparr>"
        and entry = "emptyEntry\<lparr>Data := [(''id'', ''a1'')]\<rparr>" and k = "''id''"
        and fmt = "fixedFormat (Inr [])"
        and g = "NewHookWithFieldsAndConnAndPrefix None ''app'' [(''status'', ''down''), (''zone'', ''z1'')] ''_''"]
    Fire_merges_static_fields
      [where h = "\<lparr>conn = Some Buffer_Write, ctx = [(''f1'', ''1'')],
          formatter = Some (failer_Format writeFailer)\<rparr>"
        and entry = "emptyEntry\<lparr>Data := [(''f1'', ''a2'')]\<rparr>" and k = "''f1''"
        and fmt = "fixedFormat (Inr [])"
        and g = "NewHookWithFieldsAndConnAndPrefix None ''app'' [(''status'', ''down''), (''zone'', ''z1'')] ''_''"]
    Fire_merges_static_fields
      [where h = "\<lparr>conn = Some Buffer_Write, ctx = [],
          formatter = Some (failer_Format writeFailer)\<rparr>"
        and entry = hostEntry and k = "''status''" and fmt = "fixedFormat (Inr [])"
        and g = "NewHookWithFieldsAndConnAndPrefix None ''app'' [(''status'', ''down''), (''zone'', ''z1'')] ''_''"]
    Fire_merges_static_fields
      [where h = "\<lparr>conn = Some Buffer_Write, ctx = [],
          formatter = Some (failer_Format writeFailer)\<rparr>"
        and entry = hostEntry and k = "''zone''" and fmt = "fixedFormat (Inr [])"
        and g = "NewHookWithFieldsAndConnAndPrefix None ''app'' [(''status'', ''down''), (''zone'', ''z1'')] ''_''"]
  by (simp add: emptyEntry_def hostEntry_def NewHookWithFieldsAndConnAndPrefix_def
      Hook_Fire_def failer_Format_def writeFailer_def Buffer_Write_def)

text \<open>
  The claim as written fails at the legacy hook. With prefix \<open>_\<close>, static fields
  \<open>{"_serviceName": "svc"}\<close> and an entry with fields \<open>{"_hostname": "h1", "status":
  "up"}\<close>, the static key \<open>_serviceName\<close> was not in the entry and is not in it after
  \<open>Fire\<close>, and the key \<open>_hostname\<close> of the entry has lost its value.
\<close>

theorem Fire_merges_static_fields_counterexample:
  "map_of (alwaysSentFields
       (NewHookWithFieldsAndConnAndPrefix None ''app'' [(''_serviceName'', ''svc'')] ''_''))
     ''_serviceName'' = Some ''svc''
   \<and> map_of (Data hostEntry) ''_serviceName'' = None
   \<and> map_of (Data (entry_after (LegacyHook_Fire (fixedFormat (Inr []))
       (NewHookWithFieldsAndConnAndPrefix None ''app'' [(''_serviceName'', ''svc'')] ''_'')
       hostEntry))) ''_serviceName'' \<noteq> Some ''svc''
   \<and> map_of (Data hostEntry) ''_hostname'' = Some ''h1''
   \<and> map_of (Data (entry_after (LegacyHook_Fire (fixedFormat (Inr []))
       (NewHookWithFieldsAndConnAndPrefix None ''app'' [(''_serviceName'', ''svc'')] ''_'')
       hostEntry))) ''_hostname'' \<noteq> Some ''h1''
   \<and> result (LegacyHook_Fire (fixedFormat (Inr []))
       (NewHookWithFieldsAndConnAndPrefix None ''app'' [(''_serviceName'', ''svc'')] ''_'')
       hostEntry) = Return None"
  by (simp add: LegacyHook_Fire_def LegacyHook_Fire_body_def filterHookOnly_def
      NewHookWithFieldsAndConnAndPrefix_def hostEntry_def zeroTime_def)

section \<open>The hook-only prefix\<close>

text \<open>
  C3, as the code has it. When the hook-only prefix is not the empty string, then for
  every entry, every formatter and every connection or none, that is on every exit path
  of \<open>LegacyHook.Fire\<close> (success, a format error, a write error, filter-only), no key that
  starts with the prefix is left in the entry when \<open>Fire\<close> has returned, and every other
  key has the value the merge gave it. The deferred filter does not change what \<open>Fire\<close>
  returns.
\<close>

theorem Fire_removes_prefixed_keys:
  assumes "hookOnlyPrefix h \<noteq> ''''"
  shows "(prefix (hookOnlyPrefix h) k \<longrightarrow>
            map_of (Data (entry_after (LegacyHook_Fire fmt h entry))) k = None
            \<and> k \<notin> fst ` set (Data (entry_after (LegacyHook_Fire fmt h entry))))
         \<and> (\<not> prefix (hookOnlyPrefix h) k \<longrightarrow>
            map_of (Data (entry_after (LegacyHook_Fire fmt h entry))) k =
            map_of (Data (entry_after (LegacyHook_Fire_body fmt h entry))) k)
         \<and> result (LegacyHook_Fire fmt h entry) = result (LegacyHook_Fire_body fmt h entry)
         \<and> (\<exists>r. result (LegacyHook_Fire fmt h entry) = Return r)"
proof -
  have gone: "map_of (Data (entry_after (LegacyHook_Fire fmt h entry))) k = None"
    if "prefix (hookOnlyPrefix h) k"
    using that assms by (simp add: map_of_LegacyHook_Fire)
  have kept: "map_of (Data (entry_after (LegacyHook_Fire fmt h entry))) k =
      map_of (Data (entry_after (LegacyHook_Fire_body fmt h entry))) k"
    if "\<not> prefix (hookOnlyPrefix h) k"
    using that
    by (simp add: map_of_LegacyHook_Fire entry_after_LegacyHook_Fire_body map_of_addMissing)
  have returns: "\<exists>r. result (LegacyHook_Fire fmt h entry) = Return r"
    by (simp add: result_LegacyHook_Fire LegacyHook_Fire_body_def Let_def
        split: option.splits sum.splits)
  from gone kept returns show ?thesis
    by (simp add: result_LegacyHook_Fire map_of_eq_None_iff)
qed

text \<open>
  The four exit paths at the entry \<open>{"_hostname": "h1", "status": "up"}\<close> with prefix
  \<open>_\<close>: filter-only, a format error, a write error, and success.
\<close>

theorem Fire_removes_prefixed_keys_witness:
  "map_of (Data (entry_after (LegacyHook_Fire (fixedFormat (Inr ''{}''))
       (NewFilterHookWithPrefix ''_'') hostEntry))) ''_hostname'' = None
   \<and> result (LegacyHook_Fire (fixedFormat (Inr ''{}''))
       (NewFilterHookWithPrefix ''_'') hostEntry) = Return None
   \<and> map_of (Data (entry_after (LegacyHook_Fire (fixedFormat (Inl (errorString ''format error'')))
       (NewHookWithFieldsAndConnAndPrefix (Some Buffer_Write) ''app'' [] ''_'')
       hostEntry))) ''_hostname'' = None
   \<and> result (LegacyHook_Fire (fixedFormat (Inl (errorString ''format error'')))
       (NewHookWithFieldsAndConnAndPrefix (Some Buffer_Write) ''app'' [] ''_'')
       hostEntry) = Return (Some (errorString ''format error''))
   \<and> map_of (Data (entry_after (LegacyHook_Fire (fixedFormat (Inr ''{}''))
       (NewHookWithFieldsAndConnAndPrefix
          (Some (failer_Write \<lparr>errMsg = ''write error'',
             wfunc = Some (errorString ''write error''), ffunc = None\<rparr>)) ''app'' [] ''_'')
       hostEntry))) ''_hostname'' = None
   \<and> result (LegacyHook_Fire (fixedFormat (Inr ''{}''))
       (NewHookWithFieldsAndConnAndPrefix
          (Some (failer_Write \<lparr>errMsg = ''write error'',
             wfunc = Some (errorString ''write error''), ffunc = None\<rparr>)) ''app'' [] ''_'')
       hostEntry) = Return (Some (errorString ''write error''))
   \<and> map_of (Data (entry_after (LegacyHook_Fire (fixedFormat (Inr ''{}''))
       (NewHookWithFieldsAndConnAndPrefix (Some Buffer_Write) ''app'' [] ''_'')
       hostEntry))) ''_hostname'' = None
   \<and> map_of (Data (entry_after (LegacyHook_Fire (fixedFormat (Inr ''{}''))
       (NewHookWithFieldsAndConnAndPrefix (Some Buffer_Write) ''app'' [] ''_'')
       hostEntry))) ''status'' = Some ''up''
   \<and> result (LegacyHook_Fire (fixedFormat (Inr ''{}''))
       (NewHookWithFieldsAndConnAndPrefix (Some Buffer_Write) ''app'' [] ''_'')
       hostEntry) = Return None"
proof -
  have p1: "hookOnlyPrefix (NewFilterHookWithPrefix ''_'' :: string LegacyHook) \<noteq> ''''"
    by (simp add: NewFilterHookWithPrefix_def)
  have p2: "hookOnlyPrefix (NewHookWithFieldsAndConnAndPrefix c ''app''
      ([] :: string Fields) ''_'') \<noteq> ''''" for c
    by (simp add: NewHookWithFieldsAndConnAndPrefix_def)
  note a = Fire_removes_prefixed_keys [OF p1, where k = "''_hostname''"
      and fmt = "fixedFormat (Inr ''{}'')" and entry = hostEntry]
  note b = Fire_removes_prefixed_keys [OF p2 [of "Some Buffer_Write"], where k = "''_hostname''"
      and fmt = "fixedFormat (Inl (errorString ''format error''))" and entry = hostEntry]
  note c = Fire_removes_prefixed_keys [OF p2 [of "Some (failer_Write \<lparr>errMsg = ''write error'',
         wfunc = Some (errorString ''write error''), ffunc = None\<rparr>)"], where k = "''_hostname''"
      and fmt = "fixedFormat (Inr ''{}'')" and entry = hostEntry]
  note d = Fire_removes_prefixed_keys [OF p2 [of "Some Buffer_Write"], where k = "''_hostname''"
      and fmt = "fixedFormat (Inr ''{}'')" and entry = hostEntry]
  note e = Fire_removes_prefixed_keys [OF p2 [of "Some Buffer_Write"], where k = "''status''"
      and fmt = "fixedFormat (Inr ''{}'')" and entry = hostEntry]
  from a b c d e show ?thesis
    by (simp add: NewFilterHookWithPrefix_def NewHookWithFieldsAndConnAndPrefix_def
        LegacyHook_Fire_body_def fixedFormat_def failer_Write_def Buffer_Write_def hostEntry_def)
qed

text \<open>
  The claim as written, for every configured prefix, fails at the empty prefix, the
  default of \<open>NewFilterHook\<close>: the key \<open>status\<close> starts with the empty string and is
  still in the entry after \<open>Fire\<close>.
\<close>

theorem Fire_removes_prefixed_keys_counterexample:
  "prefix (hookOnlyPrefix (NewFilterHook :: string LegacyHook)) ''status''
   \<and> map_of (Data (entry_after (LegacyHook_Fire (fixedFormat (Inr ''{}''))
       NewFilterHook hostEntry))) ''status'' = Some ''up''
   \<and> result (LegacyHook_Fire (fixedFormat (Inr ''{}'')) NewFilterHook hostEntry) = Return None"
  by (simp add: NewFilterHook_def NewFilterHookWithPrefix_def LegacyHook_Fire_def
      LegacyHook_Fire_body_def filterHookOnly_def hostEntry_def)

text \<open>
  C8. With the empty string as hook-only prefix the filter removes nothing:
  \<open>filterHookOnly\<close> returns the entry as it is, although every key has the empty string
  as a prefix. A hook built by \<open>NewFilterHook\<close> has the empty prefix and no static
  fields, and its \<open>Fire\<close> leaves every entry as it was.
\<close>

theorem empty_prefix_removes_nothing:
  "(hookOnlyPrefix h = '''' \<longrightarrow> filterHookOnly h entry = entry)
   \<and> prefix '''' k
   \<and> hookOnlyPrefix (NewFilterHook :: 'v LegacyHook) = ''''
   \<and> filterHookOnly NewFilterHook entry = entry
   \<and> entry_after (LegacyHook_Fire fmt NewFilterHook entry) = entry
   \<and> (hookOnlyPrefix h = '''' \<longrightarrow>
        map_of (Data (entry_after (LegacyHook_Fire fmt h entry))) k =
        map_of (Data (entry_after (LegacyHook_Fire_body fmt h entry))) k)"
  by (simp add: filterHookOnly_def NewFilterHook_def NewFilterHookWithPrefix_def
      entry_after_LegacyHook_Fire entry_after_LegacyHook_Fire_body)

theorem empty_prefix_removes_nothing_witness:
  "hookOnlyPrefix (WithPrefix (NewFilterHookWithPrefix ''_'' :: string LegacyHook) '''') = ''''
   \<and> filterHookOnly (WithPrefix (NewFilterHookWithPrefix ''_'') '''') hostEntry = hostEntry
   \<and> entry_after (LegacyHook_Fire (fixedFormat (Inr ''{}'')) NewFilterHook hostEntry) = hostEntry
   \<and> map_of (Data (entry_after (LegacyHook_Fire (fixedFormat (Inr ''{}''))
       (WithPrefix (NewFilterHookWithPrefix ''_'') '''') hostEntry))) ''_hostname'' = Some ''h1''"
  using empty_prefix_removes_nothing
      [of "WithPrefix (NewFilterHookWithPrefix ''_'') ''''" hostEntry "''_hostname''"
        "fixedFormat (Inr ''{}'')"]
  by (simp add: WithPrefix_def NewFilterHook_def NewFilterHookWithPrefix_def
      LegacyHook_Fire_def LegacyHook_Fire_body_def filterHookOnly_def hostEntry_def)

section \<open>Filter-only mode\<close>

text \<open>
  C4. A legacy hook without a connection merges the static fields into the entry and
  filters the prefixed keys, calls neither the formatter nor a writer, and returns
  success, whatever the fields of the entry are. The formatter has no influence on the
  outcome. \<open>NewFilterHookWithPrefix\<close> builds such a hook.
\<close>

theorem filter_only_Fire:
  assumes "legacy_conn h = None"
  shows "result (LegacyHook_Fire fmt h entry) = Return None
         \<and> calls (LegacyHook_Fire fmt h entry) = []
         \<and> LegacyHook_Fire fmt h entry = LegacyHook_Fire fmt' h entry
         \<and> entry_after (LegacyHook_Fire fmt h entry) =
             filterHookOnly h (entry\<lparr>Data := addMissing (alwaysSentFields h) (Data entry)\<rparr>)
         \<and> map_of (Data (entry_after (LegacyHook_Fire fmt h entry))) k =
             (if hookOnlyPrefix h \<noteq> '''' \<and> prefix (hookOnlyPrefix h) k then None
              else case map_of (Data entry) k of
                     Some v \<Rightarrow> Some v
                   | None \<Rightarrow> map_of (alwaysSentFields h) k)
         \<and> legacy_conn (NewFilterHookWithPrefix pre :: 'v LegacyHook) = None"
proof -
  have body: "LegacyHook_Fire_body f h entry =
      \<lparr>result = Return None,
       entry_after = entry\<lparr>Data := addMissing (alwaysSentFields h) (Data entry)\<rparr>,
       calls = []\<rparr>" for f
    using assms by (simp add: LegacyHook_Fire_body_def Let_def)
  have same: "LegacyHook_Fire fmt h entry = LegacyHook_Fire fmt' h entry"
    by (simp add: LegacyHook_Fire_def body)
  have res: "result (LegacyHook_Fire fmt h entry) = Return None"
    and cs: "calls (LegacyHook_Fire fmt h entry) = []"
    by (simp_all add: LegacyHook_Fire_def body)
  have built: "legacy_conn (NewFilterHookWithPrefix pre :: 'v LegacyHook) = None"
    by (simp add: NewFilterHookWithPrefix_def)
  note after = entry_after_LegacyHook_Fire [of fmt h entry]
  note fields = map_of_LegacyHook_Fire [of fmt h entry k]
  from res cs same after fields built show ?thesis
    by (intro conjI)
qed

text \<open>
  The prefix example: prefix \<open>_\<close> and fields \<open>{"_hostname": "h1", "status": "up"}\<close>
  leave \<open>{"status": "up"}\<close>.
\<close>

theorem filter_only_Fire_witness:
  "legacy_conn (NewFilterHookWithPrefix ''_'' :: string LegacyHook) = None
   \<and> result (LegacyHook_Fire (fixedFormat (Inl (errorString ''format error'')))
        (NewFilterHookWithPrefix ''_'') hostEntry) = Return None
   \<and> calls (LegacyHook_Fire (fixedFormat (Inl (errorString ''format error'')))
        (NewFilterHookWithPrefix ''_'') hostEntry) = []
   \<and> Data (entry_after (LegacyHook_Fire (fixedFormat (Inl (errorString ''format error'')))
        (NewFilterHookWithPrefix ''_'') hostEntry)) = [(''status'', ''up'')]"
proof -
  have c: "legacy_conn (NewFilterHookWithPrefix ''_'' :: string LegacyHook) = None"
    by (simp add: NewFilterHookWithPrefix_def)
  from c filter_only_Fire [OF c, where fmt = "fixedFormat (Inl (errorString ''format error''))"
      and entry = hostEntry]
  show ?thesis
    by (simp add: NewFilterHookWithPrefix_def filterHookOnly_def hostEntry_def)
qed

section \<open>Errors of Fire\<close>

text \<open>
  C5. \<open>Fire\<close> of either hook returns the first error of its two steps, as the very
  error value the step returned. When formatting fails, \<open>Fire\<close> returns that error and
  \<open>Write\<close> is not called. When formatting succeeds and the write fails, \<open>Fire\<close> returns
  the error of the write. When both succeed, \<open>Fire\<close> returns \<open>nil\<close>. The formatter is
  given the entry with the static fields merged in, and the writer the formatted bytes.
\<close>

theorem Fire_returns_first_error:
  "(formatter h = Some f
      \<and> f (entry\<lparr>Data := addMissing (ctx h) (Data entry)\<rparr>) = Inl err
      \<longrightarrow> result (Hook_Fire h entry) = Return (Some err)
          \<and> calls (Hook_Fire h entry) = [Format_call])
   \<and> (formatter h = Some f
      \<and> f (entry\<lparr>Data := addMissing (ctx h) (Data entry)\<rparr>) = Inr dataBytes
      \<and> conn h = Some w \<and> snd (w dataBytes) = Some err
      \<longrightarrow> result (Hook_Fire h entry) = Return (Some err)
          \<and> calls (Hook_Fire h entry) = [Format_call, Write_call dataBytes])
   \<and> (formatter h = Some f
      \<and> f (entry\<lparr>Data := addMissing (ctx h) (Data entry)\<rparr>) = Inr dataBytes
      \<and> conn h = Some w \<and> snd (w dataBytes) = None
      \<longrightarrow> result (Hook_Fire h entry) = Return None
          \<and> calls (Hook_Fire h entry) = [Format_call, Write_call dataBytes])
   \<and> (legacy_conn g = Some w
      \<and> fmt (appName g) (entry\<lparr>Data := addMissing (alwaysSentFields g) (Data entry)\<rparr>)
            (hookOnlyPrefix g) = Inl err
      \<longrightarrow> result (LegacyHook_Fire fmt g entry) = Return (Some err)
          \<and> calls (LegacyHook_Fire fmt g entry) = [Format_call])
   \<and> (legacy_conn g = Some w
      \<and> fmt (appName g) (entry\<lparr>Data := addMissing (alwaysSentFields g) (Data entry)\<rparr>)
            (hookOnlyPrefix g) = Inr dataBytes
      \<and> snd (w dataBytes) = Some err
      \<longrightarrow> result (LegacyHook_Fire fmt g entry) = Return (Some err)
          \<and> calls (LegacyHook_Fire fmt g entry) = [Format_call, Write_call dataBytes])
   \<and> (legacy_conn g = Some w
      \<and> fmt (appName g) (entry\<lparr>Data := addMissing (alwaysSentFields g) (Data entry)\<rparr>)
            (hookOnlyPrefix g) = Inr dataBytes
      \<and> snd (w dataBytes) = None
      \<longrightarrow> result (LegacyHook_Fire fmt g entry) = Return None
          \<and> calls (LegacyHook_Fire fmt g entry) = [Format_call, Write_call dataBytes])"
  by (simp add: Hook_Fire_def Let_def result_LegacyHook_Fire calls_LegacyHook_Fire
      LegacyHook_Fire_body_def)

text \<open>
  The rows of \<open>TestFireErrors\<close>, and a hook whose two steps succeed, for both hooks.
\<close>

theorem Fire_returns_first_error_witness:
  "result (Hook_Fire \<lparr>conn = Some (failer_Write formatFailer), ctx = [],
        formatter = Some (failer_Format formatFailer)\<rparr> emptyEntry)
     = Return (Some (errorString ''format error''))
   \<and> calls (Hook_Fire \<lparr>conn = Some (failer_Write formatFailer), ctx = [],
        formatter = Some (failer_Format formatFailer)\<rparr> emptyEntry) = [Format_call]
   \<and> result (Hook_Fire \<lparr>conn = Some (failer_Write writeFailer), ctx = [],
        formatter = Some (failer_Format writeFailer)\<rparr> emptyEntry)
     = Return (Some (errorString ''write error''))
   \<and> calls (Hook_Fire \<lparr>conn = Some (failer_Write writeFailer), ctx = [],
        formatter = Some (failer_Format writeFailer)\<rparr> emptyEntry)
     = [Format_call, Write_call []]
   \<and> result (Hook_Fire \<lparr>conn = Some Buffer_Write, ctx = [],
        formatter = Some (failer_Format writeFailer)\<rparr> emptyEntry) = Return None
   \<and> result (LegacyHook_Fire (fixedFormat (Inl (errorString ''format error'')))
        (NewHookWithFieldsAndConnAndPrefix (Some Buffer_Write) ''app'' [] '''') emptyEntry)
     = Return (Some (errorString ''format error''))
   \<and> calls (LegacyHook_Fire (fixedFormat (Inl (errorString ''format error'')))
        (NewHookWithFieldsAndConnAndPrefix (Some Buffer_Write) ''app'' [] '''') emptyEntry)
     = [Format_call]
   \<and> result (LegacyHook_Fire (fixedFormat (Inr ''{}''))
        (NewHookWithFieldsAndConnAndPrefix (Some (failer_Write writeFailer)) ''app'' [] '''')
        emptyEntry)
     = Return (Some (errorString ''write error''))
   \<and> result (LegacyHook_Fire (fixedFormat (Inr ''{}''))
        (NewHookWithFieldsAndConnAndPrefix (Some Buffer_Write) ''app'' [] '''') emptyEntry)
     = Return None
   \<and> calls (LegacyHook_Fire (fixedFormat (Inr ''{}''))
        (NewHookWithFieldsAndConnAndPrefix (Some Buffer_Write) ''app'' [] '''') emptyEntry)
     = [Format_call, Write_call ''{}'']"
  using Fire_returns_first_error
      [where h = "\<lparr>conn = Some (failer_Write formatFailer), ctx = [],
          formatter = Some (failer_Format formatFailer)\<rparr>"
        and f = "failer_Format formatFailer" and entry = emptyEntry
        and err = "errorString ''format error''"
        and g = "NewHookWithFieldsAndConnAndPrefix (Some Buffer_Write) ''app'' [] ''''"
        and w = Buffer_Write and fmt = "fixedFormat (Inl (errorString ''format error''))"]
    Fire_returns_first_error
      [where h = "\<lparr>conn = Some (failer_Write writeFailer), ctx = [],
          formatter = Some (failer_Format writeFailer)\<rparr>"
        and f = "failer_Format writeFailer" and entry = emptyEntry
        and err = "errorString ''write error''" and dataBytes = "[]"
        and w = "failer_Write writeFailer"
        and g = "NewHookWithFieldsAndConnAndPrefix (Some (failer_Write writeFailer)) ''app'' [] ''''"
        and fmt = "fixedFormat (Inr [])"]
    Fire_returns_first_error
      [where h = "\<lparr>conn = Some Buffer_Write, ctx = [],
          formatter = Some (failer_Format writeFailer)\<rparr>"
        and f = "failer_Format writeFailer" and entry = emptyEntry and dataBytes = "[]"
        and w = Buffer_Write
        and g = "NewHookWithFieldsAndConnAndPrefix (Some Buffer_Write) ''app'' [] ''''"
        and fmt = "fixedFormat (Inr [])"]
  by (simp add: Hook_Fire_def LegacyHook_Fire_def LegacyHook_Fire_body_def
      NewHookWithFieldsAndConnAndPrefix_def failer_Format_def failer_Write_def
      formatFailer_def writeFailer_def Buffer_Write_def fixedFormat_def errors_New_def
      emptyEntry_def)

section \<open>A hook without a formatter\<close>

text \<open>
  C10. Validation asks for no formatter source. For options with a pre-built writer
  alone, or with a protocol and an address and no writer, and with neither an
  application name nor a custom formatter, \<open>validOptions\<close> succeeds; \<open>New\<close> then returns a
  hook (once the connection is there: the writer given, or the one dialled) whose
  formatter is \<open>nil\<close>; and \<open>Fire\<close> of that hook, after merging the static fields, calls
  \<open>Format\<close> on the \<open>nil\<close> formatter and panics, for every entry. A hook returned by \<open>New\<close>
  panics in \<open>Fire\<close> exactly when the options had no formatter source.
\<close>

theorem New_without_formatter:
  "(AppName opts = '''' \<and> Formatter opts = None
      \<and> (Conn opts \<noteq> None \<and> Protocol opts = '''' \<and> Address opts = ''''
          \<or> Conn opts = None \<and> Protocol opts \<noteq> '''' \<and> Address opts \<noteq> '''')
      \<longrightarrow> validOptions opts = None)
   \<and> (AppName opts = '''' \<and> Formatter opts = None
      \<and> Conn opts = Some c \<and> Protocol opts = '''' \<and> Address opts = ''''
      \<longrightarrow> New Dial dflt opts =
            Inr \<lparr>conn = Some c, ctx = (case Fields opts of None \<Rightarrow> [] | Some fs \<Rightarrow> fs),
                 formatter = None\<rparr>)
   \<and> (AppName opts = '''' \<and> Formatter opts = None
      \<and> Conn opts = None \<and> Protocol opts \<noteq> '''' \<and> Address opts \<noteq> ''''
      \<and> Dial (Protocol opts) (Address opts) = Inr c
      \<longrightarrow> New Dial dflt opts =
            Inr \<lparr>conn = Some c, ctx = (case Fields opts of None \<Rightarrow> [] | Some fs \<Rightarrow> fs),
                 formatter = None\<rparr>)
   \<and> (New Dial dflt opts = Inr h \<and> AppName opts = '''' \<and> Formatter opts = None
      \<longrightarrow> formatter h = None
          \<and> result (Hook_Fire h entry) = Panic
          \<and> calls (Hook_Fire h entry) = []
          \<and> entry_after (Hook_Fire h entry) = entry\<lparr>Data := addMissing (ctx h) (Data entry)\<rparr>)
   \<and> (New Dial dflt opts = Inr h
      \<longrightarrow> (result (Hook_Fire h entry) = Panic
            \<longleftrightarrow> AppName opts = '''' \<and> Formatter opts = None))"
proof -
  have valid: "validOptions opts = None"
    if "AppName opts = ''''" "Formatter opts = None"
      "Conn opts \<noteq> None \<and> Protocol opts = '''' \<and> Address opts = ''''
       \<or> Conn opts = None \<and> Protocol opts \<noteq> '''' \<and> Address opts \<noteq> ''''"
    using that by (auto simp: validOptions_def)
  have given: "New Dial dflt opts =
      Inr \<lparr>conn = Some c, ctx = (case Fields opts of None \<Rightarrow> [] | Some fs \<Rightarrow> fs),
           formatter = None\<rparr>"
    if "AppName opts = ''''" "Formatter opts = None" "Conn opts = Some c"
      "Protocol opts = ''''" "Address opts = ''''"
    using that valid by (simp add: New_def)
  have dialled: "New Dial dflt opts =
      Inr \<lparr>conn = Some c, ctx = (case Fields opts of None \<Rightarrow> [] | Some fs \<Rightarrow> fs),
           formatter = None\<rparr>"
    if "AppName opts = ''''" "Formatter opts = None" "Conn opts = None"
      "Protocol opts \<noteq> ''''" "Address opts \<noteq> ''''" "Dial (Protocol opts) (Address opts) = Inr c"
    using that valid by (simp add: New_def)
  have parts: "conn h \<noteq> None
      \<and> formatter h = (if AppName opts \<noteq> '''' then Some (dflt (AppName opts) ''1'')
                       else Formatter opts)"
    if "New Dial dflt opts = Inr h"
    using that by (auto simp: New_def split: option.splits sum.splits)
  have nil: "formatter h = None" if "New Dial dflt opts = Inr h" "AppName opts = ''''"
    "Formatter opts = None"
    using parts [OF that(1)] that(2,3) by simp
  have panics: "result (Hook_Fire h entry) = Panic \<and> calls (Hook_Fire h entry) = []"
    if "formatter h = None"
    using that by (simp add: Hook_Fire_def Let_def)
  have exactly: "result (Hook_Fire h entry) = Panic \<longleftrightarrow> AppName opts = '''' \<and> Formatter opts = None"
    if "New Dial dflt opts = Inr h"
    using parts [OF that]
    by (auto simp: Hook_Fire_def Let_def split: option.splits sum.splits)
  from valid given dialled nil panics exactly show ?thesis
    by (simp add: entry_after_Hook_Fire)
qed

text \<open>
  The first valid row of \<open>TestValidOptions\<close>, a buffer as the writer and nothing else,
  and the same with a dialled connection.
\<close>

theorem New_without_formatter_witness:
  "validOptions (zeroOptions\<lparr>Conn := Some Buffer_Write\<rparr>) = None
   \<and> New failingDial (fixedFormatter (Inr ''{}'')) (zeroOptions\<lparr>Conn := Some Buffer_Write\<rparr>)
       = Inr \<lparr>conn = Some Buffer_Write, ctx = [], formatter = None\<rparr>
   \<and> New bufferDial (fixedFormatter (Inr ''{}''))
         (zeroOptions\<lparr>Address := ''localhost:8989'', Protocol := ''udp''\<rparr>)
       = Inr \<lparr>conn = Some Buffer_Write, ctx = [], formatter = None\<rparr>
   \<and> result (Hook_Fire \<lparr>conn = Some Buffer_Write, ctx = [], formatter = None\<rparr> emptyEntry)
       = Panic"
  using New_without_formatter
      [where opts = "zeroOptions\<lparr>Conn := Some Buffer_Write\<rparr>" and c = Buffer_Write
        and Dial = failingDial and dflt = "fixedFormatter (Inr ''{}'')"
        and h = "\<lparr>conn = Some Buffer_Write, ctx = [], formatter = None\<rparr>"
        and entry = emptyEntry]
    New_without_formatter
      [where opts = "zeroOptions\<lparr>Address := ''localhost:8989'', Protocol := ''udp''\<rparr>"
        and c = Buffer_Write and Dial = bufferDial and dflt = "fixedFormatter (Inr ''{}'')"
        and h = "\<lparr>conn = Some Buffer_Write, ctx = [], formatter = None\<rparr>"
        and entry = emptyEntry]
  by (simp add: zeroOptions_def bufferDial_def)

section \<open>The serialized record\<close>

lemma formatRFC3339_zeroTime: "formatRFC3339 zeroTime = ''0001-01-01T00:00:00Z''"
  by (simp add: formatRFC3339_def zeroTime_def pad4_def pad2_def digitChar_def)

lemma logstashFields_helloEntry:
  "logstashFields ''test1'' ''1'' helloEntry =
     [(''id'', StringValue ''a1''), (''@message'', StringValue ''hello world''),
      (''@level'', StringValue ''panic''), (''@timestamp'', StringValue ''0001-01-01T00:00:00Z''),
      (''type'', StringValue ''test1''), (''@version'', StringValue ''1'')]"
  by (simp add: logstashFields_def helloEntry_def formatRFC3339_zeroTime)

text \<open>
  C6. For the entry with fields \<open>{"id": "a1"}\<close>, level panic, message "hello world" and
  the zero time, the default formatter of application "test1" serializes exactly the
  JSON object \<open>{"id": "a1", "@message": "hello world", "@level": "panic", "@timestamp":
  "0001-01-01T00:00:00Z", "type": "test1", "@version": "1"}\<close>: the fields of the entry
  plus the five reserved keys, each key once. \<open>New\<close> binds the formatter to the
  application name and to the version "1", and \<open>Fire\<close> of that hook writes what the
  encoder makes of this object, and a newline, to the connection.
\<close>

theorem defaultFormatter_record:
  "map_of (logstashFields ''test1'' ''1'' helloEntry) =
     map_of [(''id'', StringValue ''a1''), (''@message'', StringValue ''hello world''),
       (''@level'', StringValue ''panic''), (''@timestamp'', StringValue ''0001-01-01T00:00:00Z''),
       (''type'', StringValue ''test1''), (''@version'', StringValue ''1'')]
   \<and> distinct (map fst (logstashFields ''test1'' ''1'' helloEntry))
   \<and> length (logstashFields ''test1'' ''1'' helloEntry) = 6
   \<and> map_of (logstashFields name version entry) ''@version'' = Some (StringValue version)
   \<and> New Dial (defaultFormatter marshal) test1Options =
       Inr \<lparr>conn = Some Buffer_Write, ctx = [],
            formatter = Some (defaultFormatter marshal ''test1'' ''1'')\<rparr>
   \<and> defaultFormatter marshal ''test1'' ''1'' helloEntry =
       (case marshal (logstashFields ''test1'' ''1'' helloEntry) of
          Inl err \<Rightarrow> Inl err
        | Inr serialized \<Rightarrow> Inr (serialized @ [CHR 0x0A]))
   \<and> calls (Hook_Fire \<lparr>conn = Some Buffer_Write, ctx = [],
         formatter = Some (defaultFormatter marshal ''test1'' ''1'')\<rparr> helloEntry) =
       (case marshal (logstashFields ''test1'' ''1'' helloEntry) of
          Inl err \<Rightarrow> [Format_call]
        | Inr serialized \<Rightarrow> [Format_call, Write_call (serialized @ [CHR 0x0A])])"
proof -
  have version: "map_of (logstashFields name version entry) ''@version'' = Some (StringValue version)"
    by (simp add: logstashFields_def update_conv')
  have new: "New Dial (defaultFormatter marshal) test1Options =
      Inr \<lparr>conn = Some Buffer_Write, ctx = [],
           formatter = Some (defaultFormatter marshal ''test1'' ''1'')\<rparr>"
    by (simp add: New_def validOptions_def test1Options_def)
  have merged: "helloEntry\<lparr>Data := addMissing [] (Data helloEntry)\<rparr> = helloEntry"
    by simp
  have fire: "calls (Hook_Fire \<lparr>conn = Some Buffer_Write, ctx = [],
      formatter = Some (defaultFormatter marshal ''test1'' ''1'')\<rparr> helloEntry) =
      (case marshal (logstashFields ''test1'' ''1'' helloEntry) of
         Inl err \<Rightarrow> [Format_call]
       | Inr serialized \<Rightarrow> [Format_call, Write_call (serialized @ [CHR 0x0A])])"
    by (simp add: Hook_Fire_def Let_def merged defaultFormatter_def Buffer_Write_def
        split: sum.splits)
  from version new fire show ?thesis
    by (simp add: logstashFields_helloEntry defaultFormatter_def)
qed

end
